theory Spec2Isabelle
  imports Main
begin

section \<open>The Pomodoro timer of pomodoro.py\<close>

text \<open>
  The timer logic of class \<open>UltimatePomodoro\<close> (src/pomodoro.py): the fields set in
  \<open>__init__\<close> (lines 147-163) and the methods \<open>tick_timer\<close>, \<open>toggle_timer\<close>,
  \<open>finish_cycle\<close>, \<open>set_work_time\<close>, \<open>set_break_time\<close>, \<open>set_total_cycles\<close> and
  \<open>reset_timer\<close> (lines 491-622). Python integers are unbounded, so every counter is an
  \<open>int\<close>. Each method mutates \<open>self\<close>; here it takes the object and returns it updated.
  Painting, docking, fonts and themes do not touch the timer fields and are left out;
  \<open>self.update()\<close> only requests a repaint.
\<close>

subsection \<open>Data\<close>

text \<open>\<open>self.mode\<close> is only ever assigned the strings "WORK" and "BREAK".\<close>

datatype mode = WORK | BREAK

text \<open>
  The title and the message handed to \<open>ThemeDialog\<close> by \<open>finish_cycle\<close>. The source texts
  are Chinese; each constructor stands for one literal of the source. The message of a
  finished focus segment is an f-string that prints \<open>current_cycle\<close> and
  \<open>target_cycles\<close>, which the constructor carries.
\<close>

datatype title = FocusOver | Congratulations | GetReady

datatype message = RoundOfFocus int int | PlanComplete | BreakOver

text \<open>
  What the timer does to its collaborators, in the order of the calls:
  \<open>self.audio_mgr.play(path)\<close>, \<open>ThemeDialog(title, msg, ...).exec()\<close> (which returns when
  the user has pressed the dialog's button) and \<open>self.audio_mgr.stop()\<close>.
\<close>

datatype event = AlarmPlay string | ShowDialog title message | AlarmStop

text \<open>
  The integer entries of the \<open>QSettings\<close> store, as a list of key and value,
  and the object itself.
\<close>

type_synonym qsettings = "(string \<times> int) list"

record pomodoro =
  settings :: qsettings
  work_duration :: int
  break_duration :: int
  target_cycles :: int
  custom_mp3_path :: string
  total_time :: int
  current_time :: int
  is_running :: bool
  mode :: mode
  current_cycle :: int
  trace :: "event list"

text \<open>What the user does with an input dialog: close it, or confirm a number.\<close>

datatype dialog_input = Cancelled | Entered int

subsection \<open>The settings store\<close>

text \<open>\<open>settings.value(key, default)\<close> and \<open>settings.setValue(key, v)\<close>.\<close>

definition value_or :: "qsettings \<Rightarrow> string \<Rightarrow> int \<Rightarrow> int" where
  "value_or st k d = (case map_of st k of Some v \<Rightarrow> v | None \<Rightarrow> d)"

fun setValue :: "string \<Rightarrow> int \<Rightarrow> qsettings \<Rightarrow> qsettings" where
  "setValue k v [] = [(k, v)]"
| "setValue k v ((k', v') # st) =
     (if k' = k then (k, v) # st else (k', v') # setValue k v st)"

text \<open>
  The store is written by the three setters only, so what \<open>__init__\<close> reads from it is
  a value one of the input dialogs has delivered, or the default.
\<close>

definition valid_settings :: "qsettings \<Rightarrow> bool" where
  "valid_settings st =
     (1 \<le> value_or st ''work_duration'' 25 \<and> value_or st ''work_duration'' 25 \<le> 120 \<and>
      1 \<le> value_or st ''break_duration'' 5 \<and> value_or st ''break_duration'' 5 \<le> 60 \<and>
      1 \<le> value_or st ''target_cycles'' 4 \<and> value_or st ''target_cycles'' 4 \<le> 20)"

subsection \<open>The input dialog\<close>

text \<open>
  Modelled from the spec: \<open>QInputDialog.getInt(parent, title, label, value, min, max)\<close>
  is a function of the GUI toolkit and is not under src/. It returns the pair
  \<open>(number, ok)\<close>. The spec describes it as "input-range validation before reaching the
  state machine", "reject, do not clamp": \<open>ok\<close> is true only for a confirmed number
  within \<open>[min, max]\<close>; a closed dialog and a number outside the range give \<open>ok\<close> false
  and the initial value back.
\<close>

definition getInt :: "dialog_input \<Rightarrow> int \<Rightarrow> int \<Rightarrow> int \<Rightarrow> int \<times> bool" where
  "getInt inp val lo hi =
     (case inp of
        Cancelled \<Rightarrow> (val, False)
      | Entered v \<Rightarrow> if lo \<le> v \<and> v \<le> hi then (v, True) else (val, False))"

subsection \<open>The methods\<close>

text \<open>\<open>__init__\<close>, lines 147-163: the store and the alarm path are what the process finds.\<close>

definition pomodoro_init :: "qsettings \<Rightarrow> string \<Rightarrow> pomodoro" where
  "pomodoro_init st path =
     \<lparr> settings = st,
       work_duration = value_or st ''work_duration'' 25,
       break_duration = value_or st ''break_duration'' 5,
       target_cycles = value_or st ''target_cycles'' 4,
       custom_mp3_path = path,
       total_time = value_or st ''work_duration'' 25 * 60,
       current_time = value_or st ''work_duration'' 25 * 60,
       is_running = False,
       mode = WORK,
       current_cycle = 1,
       trace = [] \<rparr>"

text \<open>\<open>toggle_timer\<close>, lines 497-498.\<close>

definition toggle_timer :: "pomodoro \<Rightarrow> pomodoro" where
  "toggle_timer s = s\<lparr>is_running := \<not> is_running s\<rparr>"

text \<open>\<open>reset_timer\<close>, lines 617-622.\<close>

definition reset_timer :: "pomodoro \<Rightarrow> pomodoro" where
  "reset_timer s =
     (let s1 = s\<lparr>is_running := False\<rparr>;
          duration = (if mode s1 = WORK then work_duration s1 else break_duration s1);
          s2 = s1\<lparr>total_time := duration * 60\<rparr>
      in s2\<lparr>current_time := total_time s2\<rparr>)"

text \<open>
  \<open>finish_cycle\<close>, lines 500-536: the alarm starts, the fields change by the branch taken,
  the dialog is shown with the branch's title and message, and the alarm stops when
  \<open>dlg.exec()\<close> has returned.
\<close>

definition emit :: "event \<Rightarrow> pomodoro \<Rightarrow> pomodoro" where
  "emit e s = s\<lparr>trace := trace s @ [e]\<rparr>"

definition finish_cycle :: "pomodoro \<Rightarrow> pomodoro" where
  "finish_cycle s =
     (let s1 = s\<lparr>is_running := False\<rparr>;
          s2 = emit (AlarmPlay (custom_mp3_path s1)) s1;
          (ttl, msg, s3) =
            (if mode s2 = WORK then
               (let m = RoundOfFocus (current_cycle s2) (target_cycles s2);
                    a = s2\<lparr>mode := BREAK\<rparr>;
                    b = a\<lparr>total_time := break_duration a * 60\<rparr>;
                    c = b\<lparr>current_time := total_time b\<rparr>
                in (FocusOver, m, c\<lparr>is_running := True\<rparr>))
             else if current_cycle s2 \<ge> target_cycles s2 then
               (let a = s2\<lparr>current_cycle := 1\<rparr>;
                    b = a\<lparr>mode := WORK\<rparr>;
                    c = b\<lparr>total_time := work_duration b * 60\<rparr>;
                    d = c\<lparr>current_time := total_time c\<rparr>
                in (Congratulations, PlanComplete, d\<lparr>is_running := False\<rparr>))
             else
               (let a = s2\<lparr>current_cycle := current_cycle s2 + 1\<rparr>;
                    b = a\<lparr>mode := WORK\<rparr>;
                    c = b\<lparr>total_time := work_duration b * 60\<rparr>;
                    d = c\<lparr>current_time := total_time c\<rparr>
                in (GetReady, BreakOver, d\<lparr>is_running := True\<rparr>)));
          s4 = emit (ShowDialog ttl msg) s3
      in emit AlarmStop s4)"

text \<open>\<open>tick_timer\<close>, lines 491-495.\<close>

definition tick_timer :: "pomodoro \<Rightarrow> pomodoro" where
  "tick_timer s =
     (if is_running s then
        (let s1 = s\<lparr>current_time := current_time s - 1\<rparr>
         in if current_time s1 \<le> 0 then finish_cycle s1 else s1)
      else s)"

text \<open>\<open>set_work_time\<close>, \<open>set_break_time\<close> and \<open>set_total_cycles\<close>, lines 596-615.\<close>

definition set_work_time :: "dialog_input \<Rightarrow> pomodoro \<Rightarrow> pomodoro" where
  "set_work_time inp s =
     (case getInt inp (work_duration s) 1 120 of
        (t, ok) \<Rightarrow>
          if ok then
            (let s1 = s\<lparr>work_duration := t\<rparr>;
                 s2 = s1\<lparr>settings := setValue ''work_duration'' t (settings s1)\<rparr>
             in if mode s2 = WORK then reset_timer s2 else s2)
          else s)"

definition set_break_time :: "dialog_input \<Rightarrow> pomodoro \<Rightarrow> pomodoro" where
  "set_break_time inp s =
     (case getInt inp (break_duration s) 1 60 of
        (t, ok) \<Rightarrow>
          if ok then
            (let s1 = s\<lparr>break_duration := t\<rparr>;
                 s2 = s1\<lparr>settings := setValue ''break_duration'' t (settings s1)\<rparr>
             in if mode s2 = BREAK then reset_timer s2 else s2)
          else s)"

definition set_total_cycles :: "dialog_input \<Rightarrow> pomodoro \<Rightarrow> pomodoro" where
  "set_total_cycles inp s =
     (case getInt inp (target_cycles s) 1 20 of
        (c, ok) \<Rightarrow>
          if ok then
            (let s1 = s\<lparr>target_cycles := c\<rparr>;
                 s2 = s1\<lparr>settings := setValue ''target_cycles'' c (settings s1)\<rparr>
             in s2\<lparr>current_cycle := 1\<rparr>)
          else s)"

subsection \<open>Runs of the program\<close>

text \<open>
  The states the object can be in between two callbacks: it is created from a store the
  program itself has written, and then any of the methods runs, in any order.
\<close>

inductive_set reachable :: "pomodoro set" where
  r_init: "valid_settings st \<Longrightarrow> pomodoro_init st path \<in> reachable"
| r_tick: "s \<in> reachable \<Longrightarrow> tick_timer s \<in> reachable"
| r_toggle: "s \<in> reachable \<Longrightarrow> toggle_timer s \<in> reachable"
| r_reset: "s \<in> reachable \<Longrightarrow> reset_timer s \<in> reachable"
| r_finish: "s \<in> reachable \<Longrightarrow> finish_cycle s \<in> reachable"
| r_work: "s \<in> reachable \<Longrightarrow> set_work_time inp s \<in> reachable"
| r_break: "s \<in> reachable \<Longrightarrow> set_break_time inp s \<in> reachable"
| r_cycles: "s \<in> reachable \<Longrightarrow> set_total_cycles inp s \<in> reachable"

text \<open>A state to compute with: the first run of the program, no store, no custom alarm.\<close>

definition fresh :: pomodoro where
  "fresh = pomodoro_init [] []"

text \<open>
  The last second of a focus segment: the fresh timer, started, with one second left.
\<close>

definition last_second :: pomodoro where
  "last_second = (toggle_timer fresh)\<lparr>current_time := 1\<rparr>"

text \<open>
  The plan of the specification's scenario: one minute of focus, one minute of break,
  two rounds; started.
\<close>

definition plan :: pomodoro where
  "plan = toggle_timer (pomodoro_init
     [(''work_duration'', 1), (''break_duration'', 1), (''target_cycles'', 2)] [])"

text \<open>The invariant of the runs: every bound the dialogs and the methods keep.\<close>

definition timer_inv :: "pomodoro \<Rightarrow> bool" where
  "timer_inv s =
     (valid_settings (settings s) \<and>
      1 \<le> work_duration s \<and> work_duration s \<le> 120 \<and>
      1 \<le> break_duration s \<and> break_duration s \<le> 60 \<and>
      1 \<le> target_cycles s \<and> target_cycles s \<le> 20 \<and>
      1 \<le> current_cycle s \<and> current_cycle s \<le> target_cycles s \<and>
      1 \<le> current_time s \<and> current_time s \<le> total_time s \<and>
      total_time s = (if mode s = WORK then work_duration s else break_duration s) * 60)"

section \<open>What the methods do to the fields\<close>

lemma finish_cycle_work:
  "mode s = WORK \<Longrightarrow>
   finish_cycle s =
     s\<lparr>mode := BREAK, total_time := break_duration s * 60,
       current_time := break_duration s * 60, is_running := True,
       trace := trace s @ [AlarmPlay (custom_mp3_path s),
                           ShowDialog FocusOver (RoundOfFocus (current_cycle s) (target_cycles s)),
                           AlarmStop]\<rparr>"
  by (simp add: finish_cycle_def emit_def Let_def)

lemma finish_cycle_last_break:
  "mode s = BREAK \<Longrightarrow> target_cycles s \<le> current_cycle s \<Longrightarrow>
   finish_cycle s =
     s\<lparr>current_cycle := 1, mode := WORK, total_time := work_duration s * 60,
       current_time := work_duration s * 60, is_running := False,
       trace := trace s @ [AlarmPlay (custom_mp3_path s),
                           ShowDialog Congratulations PlanComplete, AlarmStop]\<rparr>"
  by (simp add: finish_cycle_def emit_def Let_def)

lemma finish_cycle_break:
  "mode s = BREAK \<Longrightarrow> current_cycle s < target_cycles s \<Longrightarrow>
   finish_cycle s =
     s\<lparr>current_cycle := current_cycle s + 1, mode := WORK,
       total_time := work_duration s * 60, current_time := work_duration s * 60,
       is_running := True,
       trace := trace s @ [AlarmPlay (custom_mp3_path s),
                           ShowDialog GetReady BreakOver, AlarmStop]\<rparr>"
  by (simp add: finish_cycle_def emit_def Let_def)


lemma value_or_setValue:
  "value_or (setValue k v st) k' d = (if k' = k then v else value_or st k' d)"
  by (induction st) (auto simp: value_or_def)

lemma timer_inv_init: "valid_settings st \<Longrightarrow> timer_inv (pomodoro_init st path)"
  by (simp add: timer_inv_def pomodoro_init_def valid_settings_def)

lemma timer_inv_toggle: "timer_inv s \<Longrightarrow> timer_inv (toggle_timer s)"
  by (simp add: timer_inv_def toggle_timer_def)

lemma timer_inv_reset: "timer_inv s \<Longrightarrow> timer_inv (reset_timer s)"
  by (simp add: timer_inv_def reset_timer_def Let_def)

lemma timer_inv_finish_any:
  assumes "timer_inv (s\<lparr>current_time := t\<rparr>)"
  shows "timer_inv (finish_cycle s)"
proof (cases "mode s")
  case WORK
  with assms show ?thesis
    by (simp add: finish_cycle_work timer_inv_def)
next
  case BREAK
  show ?thesis
  proof (cases "current_cycle s < target_cycles s")
    case True
    with BREAK assms show ?thesis
      by (simp add: finish_cycle_break timer_inv_def)
  next
    case False
    with BREAK assms show ?thesis
      by (simp add: finish_cycle_last_break timer_inv_def)
  qed
qed

lemma timer_inv_finish: "timer_inv s \<Longrightarrow> timer_inv (finish_cycle s)"
  using timer_inv_finish_any [where s = s and t = "current_time s"] by simp

lemma timer_inv_tick: "timer_inv s \<Longrightarrow> timer_inv (tick_timer s)"
proof -
  assume a: "timer_inv s"
  show ?thesis
  proof (cases "is_running s \<and> current_time s - 1 \<le> 0")
    case True
    have "timer_inv ((s\<lparr>current_time := current_time s - 1\<rparr>)\<lparr>current_time := current_time s\<rparr>)"
      using a by simp
    then have "timer_inv (finish_cycle (s\<lparr>current_time := current_time s - 1\<rparr>))"
      by (rule timer_inv_finish_any)
    with True show ?thesis by (simp add: tick_timer_def Let_def)
  next
    case False
    with a show ?thesis by (auto simp: tick_timer_def Let_def timer_inv_def)
  qed
qed

lemma timer_inv_work: "timer_inv s \<Longrightarrow> timer_inv (set_work_time inp s)"
  by (cases inp)
     (auto simp: set_work_time_def getInt_def timer_inv_def reset_timer_def Let_def
        valid_settings_def value_or_setValue)

lemma timer_inv_break: "timer_inv s \<Longrightarrow> timer_inv (set_break_time inp s)"
  by (cases inp; cases "mode s")
     (auto simp: set_break_time_def getInt_def timer_inv_def reset_timer_def Let_def
        valid_settings_def value_or_setValue)

lemma timer_inv_cycles: "timer_inv s \<Longrightarrow> timer_inv (set_total_cycles inp s)"
  by (cases inp)
     (auto simp: set_total_cycles_def getInt_def timer_inv_def Let_def
        valid_settings_def value_or_setValue)

lemma reachable_inv: "s \<in> reachable \<Longrightarrow> timer_inv s"
  by (induction rule: reachable.induct)
     (simp_all add: timer_inv_init timer_inv_tick timer_inv_toggle timer_inv_reset timer_inv_finish timer_inv_work timer_inv_break
        timer_inv_cycles)

lemma finish_cycle_reseeds:
  "current_time (finish_cycle s) =
     (if mode s = WORK then break_duration s else work_duration s) * 60 \<and>
   work_duration (finish_cycle s) = work_duration s \<and>
   break_duration (finish_cycle s) = break_duration s"
  by (cases "mode s"; cases "current_cycle s < target_cycles s")
     (simp_all add: finish_cycle_work finish_cycle_break finish_cycle_last_break)

lemma tick_timer_keeps_durations:
  "work_duration (tick_timer s) = work_duration s \<and>
   break_duration (tick_timer s) = break_duration s"
  using finish_cycle_reseeds [of "s\<lparr>current_time := current_time s - 1\<rparr>"]
  by (simp add: tick_timer_def Let_def)

lemma tick_timer_nonneg:
  assumes "0 \<le> work_duration s" and "0 \<le> break_duration s" and "0 \<le> current_time s"
  shows "0 \<le> current_time (tick_timer s)"
  using assms finish_cycle_reseeds [of "s\<lparr>current_time := current_time s - 1\<rparr>"]
  by (simp add: tick_timer_def Let_def)

lemma ticks_nonneg:
  assumes "0 \<le> work_duration s" and "0 \<le> break_duration s" and "0 \<le> current_time s"
  shows "0 \<le> work_duration ((tick_timer ^^ n) s) \<and>
         0 \<le> break_duration ((tick_timer ^^ n) s) \<and>
         0 \<le> current_time ((tick_timer ^^ n) s)"
proof (induction n)
  case 0
  from assms show ?case by simp
next
  case (Suc n)
  then show ?case
    by (simp add: tick_timer_keeps_durations tick_timer_nonneg)
qed

lemma tick_timer_within:
  "is_running t \<Longrightarrow> 1 < current_time t \<Longrightarrow>
   tick_timer t = t\<lparr>current_time := current_time t - 1\<rparr>"
  by (simp add: tick_timer_def Let_def)

lemma ticks_within_segment:
  assumes "is_running s" and "int n < current_time s"
  shows "is_running ((tick_timer ^^ n) s) \<and>
         current_time ((tick_timer ^^ n) s) = current_time s - int n"
  using assms
proof (induction n)
  case 0
  then show ?case by simp
next
  case (Suc n)
  then have "is_running ((tick_timer ^^ n) s)"
    and "current_time ((tick_timer ^^ n) s) = current_time s - int n"
    by simp_all
  with Suc.prems show ?case
    by (simp add: tick_timer_within)
qed

lemma ticks_run_down:
  assumes "is_running s" and "int n < current_time s"
  shows "(tick_timer ^^ n) s = s\<lparr>current_time := current_time s - int n\<rparr>"
  using assms
proof (induction n)
  case 0
  then show ?case by simp
next
  case (Suc n)
  then have "(tick_timer ^^ n) s = s\<lparr>current_time := current_time s - int n\<rparr>"
    by simp
  with Suc.prems show ?case
    by (simp add: tick_timer_within)
qed

lemma ticks_whole_segment:
  assumes "is_running s" and "current_time s = int (Suc n)"
  shows "(tick_timer ^^ Suc n) s = finish_cycle (s\<lparr>current_time := 0\<rparr>)"
proof -
  have "(tick_timer ^^ n) s = s\<lparr>current_time := 1\<rparr>"
    using ticks_run_down [of s n] assms by simp
  then show ?thesis
    using assms by (simp add: tick_timer_def Let_def)
qed

section \<open>The claims\<close>

subsection \<open>C1: the transition table of \<open>finish_cycle\<close>\<close>

text \<open>
  C1. From WORK, \<open>finish_cycle\<close> always moves to BREAK, running, with the cycle count
  unchanged. From BREAK below the target it moves to WORK with the count one higher,
  running. From BREAK at or above the target it moves to WORK with the count back at 1 and
  not running. In every case \<open>total_time\<close> becomes the new mode's configured minutes times
  60 and \<open>current_time\<close> equals it; the configuration itself is not touched.
\<close>

theorem finish_cycle_transition_table:
  "(mode s = WORK \<longrightarrow>
      mode (finish_cycle s) = BREAK \<and> is_running (finish_cycle s) \<and>
      current_cycle (finish_cycle s) = current_cycle s \<and>
      total_time (finish_cycle s) = break_duration s * 60 \<and>
      current_time (finish_cycle s) = total_time (finish_cycle s)) \<and>
   (mode s = BREAK \<and> current_cycle s < target_cycles s \<longrightarrow>
      mode (finish_cycle s) = WORK \<and> is_running (finish_cycle s) \<and>
      current_cycle (finish_cycle s) = current_cycle s + 1 \<and>
      total_time (finish_cycle s) = work_duration s * 60 \<and>
      current_time (finish_cycle s) = total_time (finish_cycle s)) \<and>
   (mode s = BREAK \<and> current_cycle s \<ge> target_cycles s \<longrightarrow>
      mode (finish_cycle s) = WORK \<and> \<not> is_running (finish_cycle s) \<and>
      current_cycle (finish_cycle s) = 1 \<and>
      total_time (finish_cycle s) = work_duration s * 60 \<and>
      current_time (finish_cycle s) = total_time (finish_cycle s)) \<and>
   work_duration (finish_cycle s) = work_duration s \<and>
   break_duration (finish_cycle s) = break_duration s \<and>
   target_cycles (finish_cycle s) = target_cycles s"
proof (cases "mode s")
  case WORK
  then show ?thesis by (simp add: finish_cycle_work)
next
  case BREAK
  show ?thesis
  proof (cases "current_cycle s < target_cycles s")
    case True
    with BREAK show ?thesis by (simp add: finish_cycle_break)
  next
    case False
    with BREAK show ?thesis by (simp add: finish_cycle_last_break)
  qed
qed

lemmas run_defs =
  fresh_def last_second_def pomodoro_init_def value_or_def getInt_def emit_def Let_def
  toggle_timer_def reset_timer_def finish_cycle_def tick_timer_def
  set_work_time_def set_break_time_def set_total_cycles_def

lemma fresh_reachable: "fresh \<in> reachable"
  unfolding fresh_def by (rule r_init) (simp add: valid_settings_def value_or_def)

text \<open>
  The three rows at work: the first segment of a fresh timer, the break after it (round
  1 of 4), and the same break when the plan is a single round.
\<close>

theorem finish_cycle_transition_table_witness:
  "mode fresh = WORK \<and>
   mode (finish_cycle fresh) = BREAK \<and> is_running (finish_cycle fresh) \<and>
   current_cycle (finish_cycle fresh) = 1 \<and> total_time (finish_cycle fresh) = 300 \<and>
   current_time (finish_cycle fresh) = 300 \<and>
   current_cycle (finish_cycle fresh) < target_cycles (finish_cycle fresh) \<and>
   mode (finish_cycle (finish_cycle fresh)) = WORK \<and>
   is_running (finish_cycle (finish_cycle fresh)) \<and>
   current_cycle (finish_cycle (finish_cycle fresh)) = 2 \<and>
   current_time (finish_cycle (finish_cycle fresh)) = 1500 \<and>
   mode (set_total_cycles (Entered 1) (finish_cycle fresh)) = BREAK \<and>
   current_cycle (set_total_cycles (Entered 1) (finish_cycle fresh))
     \<ge> target_cycles (set_total_cycles (Entered 1) (finish_cycle fresh)) \<and>
   mode (finish_cycle (set_total_cycles (Entered 1) (finish_cycle fresh))) = WORK \<and>
   \<not> is_running (finish_cycle (set_total_cycles (Entered 1) (finish_cycle fresh))) \<and>
   current_cycle (finish_cycle (set_total_cycles (Entered 1) (finish_cycle fresh))) = 1 \<and>
   current_time (finish_cycle (set_total_cycles (Entered 1) (finish_cycle fresh))) = 1500"
  using finish_cycle_transition_table [of fresh]
    finish_cycle_transition_table [of "finish_cycle fresh"]
    finish_cycle_transition_table [of "set_total_cycles (Entered 1) (finish_cycle fresh)"]
  by (simp add: run_defs)


subsection \<open>C2: one tick\<close>

text \<open>
  C2. For every state, \<open>tick_timer\<close> changes nothing when \<open>is_running\<close> is false. When it is
  true, \<open>current_time\<close> goes down by exactly 1, and \<open>finish_cycle\<close> runs on the decremented
  state if and only if the decremented value has reached 0, which the source tests as
  \<open>current_time <= 0\<close>. A call of \<open>finish_cycle\<close> shows in the trace, which no other step
  of \<open>tick_timer\<close> extends. From a value of at least 1, the test is the same as the
  decremented value being equal to 0.
\<close>

theorem tick_timer_step:
  "(\<not> is_running s \<longrightarrow> tick_timer s = s) \<and>
   (is_running s \<and> 0 < current_time s - 1 \<longrightarrow>
      tick_timer s = s\<lparr>current_time := current_time s - 1\<rparr>) \<and>
   (is_running s \<and> current_time s - 1 \<le> 0 \<longrightarrow>
      tick_timer s = finish_cycle (s\<lparr>current_time := current_time s - 1\<rparr>)) \<and>
   (trace (tick_timer s) \<noteq> trace s \<longleftrightarrow> is_running s \<and> current_time s - 1 \<le> 0) \<and>
   (1 \<le> current_time s \<longrightarrow>
      (trace (tick_timer s) \<noteq> trace s \<longleftrightarrow> is_running s \<and> current_time s - 1 = 0))"
proof -
  have grows: "trace (finish_cycle t) \<noteq> trace t" for t
    by (cases "mode t"; cases "current_cycle t < target_cycles t")
       (simp_all add: finish_cycle_work finish_cycle_break finish_cycle_last_break)
  have "trace (finish_cycle (s\<lparr>current_time := current_time s - 1\<rparr>)) \<noteq> trace s"
    using grows [of "s\<lparr>current_time := current_time s - 1\<rparr>"] by simp
  then show ?thesis
    by (auto simp: tick_timer_def Let_def)
qed

theorem tick_timer_step_witness:
  "\<not> is_running fresh \<and> tick_timer fresh = fresh \<and>
   is_running (toggle_timer fresh) \<and> 0 < current_time (toggle_timer fresh) - 1 \<and>
   current_time (tick_timer (toggle_timer fresh)) = 1499 \<and>
   trace (tick_timer (toggle_timer fresh)) = trace (toggle_timer fresh) \<and>
   is_running last_second \<and> current_time last_second - 1 = 0 \<and>
   tick_timer last_second = finish_cycle (last_second\<lparr>current_time := 0\<rparr>) \<and>
   trace (tick_timer last_second) \<noteq> trace last_second"
  using tick_timer_step [of fresh] tick_timer_step [of "toggle_timer fresh"]
    tick_timer_step [of last_second]
  by (simp add: run_defs)

subsection \<open>C3: the cycle counter stays within the plan\<close>

text \<open>
  C3. In every state reached from the initial state (\<open>current_cycle = 1\<close>) by ticks,
  toggles, resets, calls of \<open>finish_cycle\<close> and the three setters,
  \<open>1 <= current_cycle <= target_cycles\<close> holds, and finishing the last break
  (\<open>finish_cycle\<close> in BREAK with \<open>current_cycle >= target_cycles\<close>) puts
  \<open>current_cycle\<close> back to 1.
\<close>

theorem current_cycle_within_target:
  assumes "s \<in> reachable"
  shows "1 \<le> current_cycle s \<and> current_cycle s \<le> target_cycles s \<and>
         (mode s = BREAK \<and> current_cycle s \<ge> target_cycles s \<longrightarrow>
            current_cycle (finish_cycle s) = 1)"
proof -
  have "timer_inv s"
    using assms by (rule reachable_inv)
  then show ?thesis
    by (auto simp: timer_inv_def finish_cycle_last_break)
qed

text \<open>
  The last break of a plan of two rounds: focus, break, focus, and the break after it.
\<close>

theorem current_cycle_within_target_witness:
  "finish_cycle (finish_cycle (finish_cycle (set_total_cycles (Entered 2) fresh)))
     \<in> reachable \<and>
   mode (finish_cycle (finish_cycle (finish_cycle (set_total_cycles (Entered 2) fresh))))
     = BREAK \<and>
   current_cycle (finish_cycle (finish_cycle (finish_cycle (set_total_cycles (Entered 2) fresh))))
     = 2 \<and>
   target_cycles (finish_cycle (finish_cycle (finish_cycle (set_total_cycles (Entered 2) fresh))))
     = 2 \<and>
   current_cycle (finish_cycle (finish_cycle (finish_cycle (finish_cycle
     (set_total_cycles (Entered 2) fresh))))) = 1"
proof -
  have r: "finish_cycle (finish_cycle (finish_cycle (set_total_cycles (Entered 2) fresh)))
      \<in> reachable"
    by (intro r_finish r_cycles fresh_reachable)
  show ?thesis
    using r current_cycle_within_target [OF r] by (simp add: run_defs)
qed

subsection \<open>C4: the remaining time stays within the segment\<close>

text \<open>
  C4. In every state reached from the initial state by ticks, toggles, resets, calls of
  \<open>finish_cycle\<close> and the three setters, \<open>0 <= current_time <= total_time\<close> holds.
\<close>

theorem current_time_within_total:
  assumes "s \<in> reachable"
  shows "0 \<le> current_time s \<and> current_time s \<le> total_time s"
proof -
  have "timer_inv s"
    using assms by (rule reachable_inv)
  then show ?thesis
    by (simp add: timer_inv_def)
qed

theorem current_time_within_total_witness:
  "tick_timer (tick_timer (toggle_timer (set_work_time (Entered 1) fresh))) \<in> reachable \<and>
   current_time (tick_timer (tick_timer (toggle_timer (set_work_time (Entered 1) fresh)))) = 58 \<and>
   total_time (tick_timer (tick_timer (toggle_timer (set_work_time (Entered 1) fresh)))) = 60"
proof -
  have r: "tick_timer (tick_timer (toggle_timer (set_work_time (Entered 1) fresh)))
      \<in> reachable"
    by (intro r_tick r_toggle r_work fresh_reachable)
  show ?thesis
    using r current_time_within_total [OF r] by (simp add: run_defs)
qed

subsection \<open>C5: one notification per call\<close>

text \<open>
  C5. A call of \<open>finish_cycle\<close> adds exactly three events to the trace, in this order: the
  alarm is started with the configured sound, one dialog with one title and one message
  is shown, and the alarm is stopped once the dialog has returned, that is, once the user
  has acknowledged it. No call shows no dialog, and no call shows two.
\<close>

theorem finish_cycle_one_notification:
  "\<exists>ttl msg. trace (finish_cycle s) =
     trace s @ [AlarmPlay (custom_mp3_path s), ShowDialog ttl msg, AlarmStop]"
  by (cases "mode s"; cases "current_cycle s < target_cycles s")
     (simp_all add: finish_cycle_work finish_cycle_break finish_cycle_last_break)

theorem finish_cycle_one_notification_witness:
  "trace (finish_cycle fresh) =
     [AlarmPlay [], ShowDialog FocusOver (RoundOfFocus 1 4), AlarmStop]"
  using finish_cycle_one_notification [of fresh] by (simp add: run_defs)

subsection \<open>C6: numbers outside the bounds\<close>

text \<open>
  C6. A number outside its bound (work minutes outside 1..120, break minutes outside
  1..60, target cycles outside 1..20) is rejected and the setter leaves the whole object
  as it was; in particular 121 work minutes change nothing.
\<close>

theorem out_of_bound_rejected:
  "(v < 1 \<or> 120 < v \<longrightarrow> set_work_time (Entered v) s = s) \<and>
   (v < 1 \<or> 60 < v \<longrightarrow> set_break_time (Entered v) s = s) \<and>
   (v < 1 \<or> 20 < v \<longrightarrow> set_total_cycles (Entered v) s = s)"
  by (auto simp: set_work_time_def set_break_time_def set_total_cycles_def getInt_def)

theorem out_of_bound_rejected_witness:
  "set_work_time (Entered 121) (toggle_timer fresh) = toggle_timer fresh \<and>
   set_break_time (Entered 61) (toggle_timer fresh) = toggle_timer fresh \<and>
   set_total_cycles (Entered 0) (toggle_timer fresh) = toggle_timer fresh"
  using out_of_bound_rejected [of 121 "toggle_timer fresh"]
    out_of_bound_rejected [of 61 "toggle_timer fresh"]
    out_of_bound_rejected [of 0 "toggle_timer fresh"]
  by simp

subsection \<open>C7: a setter followed by a reset\<close>

text \<open>
  C7 as stated: for every duration d within its bound, setting that duration and then
  resetting gives \<open>current_time = total_time = d * 60\<close>. It fails for the duration of the
  mode the timer is not in: during the first break (5 minutes), 30 work minutes are set
  and the timer is reset; the segment is the break's 300 seconds, not 1800.
\<close>

theorem set_work_time_in_break_counterexample:
  "mode (finish_cycle fresh) = BREAK \<and>
   current_time (reset_timer (set_work_time (Entered 30) (finish_cycle fresh))) = 300 \<and>
   current_time (reset_timer (set_work_time (Entered 30) (finish_cycle fresh))) \<noteq> 30 * 60"
  by (simp add: run_defs)

text \<open>
  C7, amended. For every duration d within its bound, setting the duration of the mode
  the timer is in (work minutes in WORK, break minutes in BREAK) and then resetting gives
  \<open>current_time = total_time = d * 60\<close> with \<open>is_running\<close> false. Setting the duration of
  the other mode and then resetting gives \<open>current_time = total_time\<close> = the unchanged
  duration of the mode the timer is in, times 60, with \<open>is_running\<close> false.
\<close>

theorem set_then_reset:
  "(1 \<le> d \<and> d \<le> 120 \<and> mode s = WORK \<longrightarrow>
      current_time (reset_timer (set_work_time (Entered d) s)) = d * 60 \<and>
      total_time (reset_timer (set_work_time (Entered d) s)) = d * 60 \<and>
      \<not> is_running (reset_timer (set_work_time (Entered d) s))) \<and>
   (1 \<le> d \<and> d \<le> 60 \<and> mode s = BREAK \<longrightarrow>
      current_time (reset_timer (set_break_time (Entered d) s)) = d * 60 \<and>
      total_time (reset_timer (set_break_time (Entered d) s)) = d * 60 \<and>
      \<not> is_running (reset_timer (set_break_time (Entered d) s))) \<and>
   (1 \<le> d \<and> d \<le> 120 \<and> mode s = BREAK \<longrightarrow>
      current_time (reset_timer (set_work_time (Entered d) s)) = break_duration s * 60 \<and>
      total_time (reset_timer (set_work_time (Entered d) s)) = break_duration s * 60 \<and>
      \<not> is_running (reset_timer (set_work_time (Entered d) s))) \<and>
   (1 \<le> d \<and> d \<le> 60 \<and> mode s = WORK \<longrightarrow>
      current_time (reset_timer (set_break_time (Entered d) s)) = work_duration s * 60 \<and>
      total_time (reset_timer (set_break_time (Entered d) s)) = work_duration s * 60 \<and>
      \<not> is_running (reset_timer (set_break_time (Entered d) s)))"
  by (simp add: set_work_time_def set_break_time_def getInt_def reset_timer_def Let_def)

theorem set_then_reset_witness:
  "mode fresh = WORK \<and>
   current_time (reset_timer (set_work_time (Entered 30) fresh)) = 1800 \<and>
   total_time (reset_timer (set_work_time (Entered 30) fresh)) = 1800 \<and>
   \<not> is_running (reset_timer (set_work_time (Entered 30) fresh)) \<and>
   current_time (reset_timer (set_break_time (Entered 10) fresh)) = 1500 \<and>
   mode (finish_cycle fresh) = BREAK \<and>
   current_time (reset_timer (set_break_time (Entered 10) (finish_cycle fresh))) = 600 \<and>
   total_time (reset_timer (set_break_time (Entered 10) (finish_cycle fresh))) = 600 \<and>
   \<not> is_running (reset_timer (set_break_time (Entered 10) (finish_cycle fresh))) \<and>
   total_time (reset_timer (set_work_time (Entered 45) (finish_cycle fresh))) = 300"
  using set_then_reset [of 30 fresh] set_then_reset [of 10 fresh]
    set_then_reset [of 10 "finish_cycle fresh"] set_then_reset [of 45 "finish_cycle fresh"]
  by (simp add: run_defs)

subsection \<open>C8: the remaining time along a run of ticks\<close>

text \<open>
  C8 as stated: along any sequence of ticks of a running timer, \<open>current_time\<close> never
  goes up. It fails at the tick that ends a segment: with one second of focus left, the
  tick leaves the timer running and puts \<open>current_time\<close> at the 300 seconds of the break.
\<close>

theorem tick_timer_reseeds_counterexample:
  "is_running last_second \<and> is_running (tick_timer last_second) \<and>
   current_time last_second = 1 \<and> current_time (tick_timer last_second) = 300 \<and>
   \<not> current_time (tick_timer last_second) \<le> current_time last_second"
  by (simp add: run_defs)

text \<open>
  C8, amended. Along any sequence of ticks (from a state with no negative duration and
  no negative remaining time) \<open>current_time\<close> is never negative. While the timer runs
  and the segment is not over, each tick takes exactly one second off, so within a
  segment \<open>current_time\<close> does not go up; the tick that ends the segment sets it to the
  full length of the next one.
\<close>

theorem ticks_within_and_across_segments:
  assumes "0 \<le> work_duration s" and "0 \<le> break_duration s" and "0 \<le> current_time s"
  shows "0 \<le> current_time ((tick_timer ^^ n) s) \<and>
         (is_running s \<and> int n < current_time s \<longrightarrow>
            is_running ((tick_timer ^^ n) s) \<and>
            current_time ((tick_timer ^^ n) s) = current_time s - int n) \<and>
         (is_running s \<and> int (Suc n) < current_time s \<longrightarrow>
            current_time ((tick_timer ^^ Suc n) s) \<le> current_time ((tick_timer ^^ n) s)) \<and>
         (is_running s \<and> current_time s = 1 \<longrightarrow>
            current_time (tick_timer s) =
              (if mode s = WORK then break_duration s else work_duration s) * 60)"
proof -
  have a: "0 \<le> current_time ((tick_timer ^^ n) s)"
    using ticks_nonneg [OF assms, of n] by simp
  have b: "is_running ((tick_timer ^^ n) s) \<and>
           current_time ((tick_timer ^^ n) s) = current_time s - int n"
    if "is_running s" and "int n < current_time s"
    using that by (rule ticks_within_segment)
  have c: "current_time ((tick_timer ^^ Suc n) s) \<le> current_time ((tick_timer ^^ n) s)"
    if "is_running s" and "int (Suc n) < current_time s"
  proof -
    have "current_time ((tick_timer ^^ Suc n) s) = current_time s - int (Suc n)"
      using ticks_within_segment [OF that] by simp
    moreover have "current_time ((tick_timer ^^ n) s) = current_time s - int n"
      using ticks_within_segment [of s n] that by simp
    ultimately show ?thesis by simp
  qed
  have d: "current_time (tick_timer s) =
             (if mode s = WORK then break_duration s else work_duration s) * 60"
    if "is_running s" and "current_time s = 1"
    using that finish_cycle_reseeds [of "s\<lparr>current_time := current_time s - 1\<rparr>"]
    by (simp add: tick_timer_def Let_def)
  from a b c d show ?thesis by blast
qed

text \<open>
  A fresh timer, started: after three ticks 1497 seconds are left; and the last second
  of the segment is followed by the 300 seconds of the break.
\<close>

theorem ticks_within_and_across_segments_witness:
  "0 \<le> work_duration (toggle_timer fresh) \<and> 0 \<le> break_duration (toggle_timer fresh) \<and>
   0 \<le> current_time (toggle_timer fresh) \<and> is_running (toggle_timer fresh) \<and>
   int 3 < current_time (toggle_timer fresh) \<and>
   current_time ((tick_timer ^^ 3) (toggle_timer fresh)) = 1497 \<and>
   is_running ((tick_timer ^^ 3) (toggle_timer fresh)) \<and>
   0 \<le> work_duration last_second \<and> 0 \<le> break_duration last_second \<and>
   is_running last_second \<and> current_time last_second = 1 \<and>
   current_time (tick_timer last_second) = 300"
proof -
  have h: "0 \<le> work_duration (toggle_timer fresh)" "0 \<le> break_duration (toggle_timer fresh)"
    "0 \<le> current_time (toggle_timer fresh)"
    by (simp_all add: run_defs)
  have k: "0 \<le> work_duration last_second" "0 \<le> break_duration last_second"
    "0 \<le> current_time last_second"
    by (simp_all add: run_defs)
  have m: "is_running (toggle_timer fresh)" "int 3 < current_time (toggle_timer fresh)"
    "is_running last_second" "current_time last_second = 1" "mode last_second = WORK"
    "break_duration last_second = 5" "current_time (toggle_timer fresh) = 1500"
    by (simp_all add: run_defs)
  show ?thesis
    using ticks_within_and_across_segments [OF h, of 3]
      ticks_within_and_across_segments [OF k, of 0] h k m
    by simp
qed

subsection \<open>C9: \<open>toggle_timer\<close> touches one field\<close>

text \<open>
  C9. \<open>toggle_timer\<close> negates \<open>is_running\<close> and changes nothing else: the mode, the
  remaining and the total time, the cycle counter, the target and the two configured
  durations stay as they are. On a paused timer it sets \<open>is_running\<close> and leaves
  \<open>current_time\<close> alone.
\<close>

theorem toggle_timer_frame:
  "toggle_timer s = s\<lparr>is_running := \<not> is_running s\<rparr> \<and>
   is_running (toggle_timer s) = (\<not> is_running s) \<and>
   mode (toggle_timer s) = mode s \<and>
   current_time (toggle_timer s) = current_time s \<and>
   total_time (toggle_timer s) = total_time s \<and>
   current_cycle (toggle_timer s) = current_cycle s \<and>
   target_cycles (toggle_timer s) = target_cycles s \<and>
   work_duration (toggle_timer s) = work_duration s \<and>
   break_duration (toggle_timer s) = break_duration s \<and>
   settings (toggle_timer s) = settings s \<and>
   custom_mp3_path (toggle_timer s) = custom_mp3_path s \<and>
   trace (toggle_timer s) = trace s"
  by (simp add: toggle_timer_def)

theorem toggle_timer_frame_witness:
  "\<not> is_running fresh \<and> is_running (toggle_timer fresh) \<and>
   current_time fresh = 1500 \<and> current_time (toggle_timer fresh) = 1500 \<and>
   toggle_timer (toggle_timer fresh) = fresh"
  using toggle_timer_frame [of fresh] toggle_timer_frame [of "toggle_timer fresh"]
  by (simp add: run_defs)

subsection \<open>C10: a new target restarts the count\<close>

text \<open>
  C10. Whenever \<open>set_total_cycles\<close> accepts a number (one within 1..20), the target
  becomes that number and \<open>current_cycle\<close> is set to 1, whatever it was before, also when
  the new target is at or above the old count; nothing else of the timer changes.
\<close>

theorem set_total_cycles_restarts_count:
  assumes "1 \<le> c" and "c \<le> 20"
  shows "current_cycle (set_total_cycles (Entered c) s) = 1 \<and>
         target_cycles (set_total_cycles (Entered c) s) = c \<and>
         set_total_cycles (Entered c) s =
           s\<lparr>target_cycles := c, settings := setValue ''target_cycles'' c (settings s),
             current_cycle := 1\<rparr>"
  using assms by (simp add: set_total_cycles_def getInt_def Let_def)

text \<open>
  In the second round of four, the target is raised to ten: the count is back at 1.
\<close>

theorem set_total_cycles_restarts_count_witness:
  "(1::int) \<le> 10 \<and> (10::int) \<le> 20 \<and>
   current_cycle (finish_cycle (finish_cycle fresh)) = 2 \<and>
   target_cycles (finish_cycle (finish_cycle fresh)) = 4 \<and>
   current_cycle (set_total_cycles (Entered 10) (finish_cycle (finish_cycle fresh))) = 1 \<and>
   target_cycles (set_total_cycles (Entered 10) (finish_cycle (finish_cycle fresh))) = 10"
proof -
  have h: "(1::int) \<le> 10" "(10::int) \<le> 20"
    by simp_all
  show ?thesis
    using set_total_cycles_restarts_count [OF h, of "finish_cycle (finish_cycle fresh)"]
    by (simp add: run_defs)
qed

section \<open>The scenario of the specification\<close>

text \<open>
  Work 1 minute, break 1 minute, two rounds. Sixty ticks end the first focus segment
  (BREAK, running, round 1), sixty more end the break (WORK, running, round 2), sixty more
  the second focus segment (BREAK, round 2), and sixty more the last break: WORK, not
  running, round 1.
\<close>

lemma two_round_plan:
  "mode ((tick_timer ^^ 60) plan) = BREAK \<and> is_running ((tick_timer ^^ 60) plan) \<and>
   current_cycle ((tick_timer ^^ 60) plan) = 1 \<and>
   mode ((tick_timer ^^ 60) ((tick_timer ^^ 60) plan)) = WORK \<and>
   is_running ((tick_timer ^^ 60) ((tick_timer ^^ 60) plan)) \<and>
   current_cycle ((tick_timer ^^ 60) ((tick_timer ^^ 60) plan)) = 2 \<and>
   mode ((tick_timer ^^ 60) ((tick_timer ^^ 60) ((tick_timer ^^ 60) plan))) = BREAK \<and>
   current_cycle ((tick_timer ^^ 60) ((tick_timer ^^ 60) ((tick_timer ^^ 60) plan))) = 2 \<and>
   mode ((tick_timer ^^ 60) ((tick_timer ^^ 60) ((tick_timer ^^ 60) ((tick_timer ^^ 60) plan)))) = WORK \<and>
   \<not> is_running ((tick_timer ^^ 60) ((tick_timer ^^ 60) ((tick_timer ^^ 60) ((tick_timer ^^ 60) plan)))) \<and>
   current_cycle ((tick_timer ^^ 60) ((tick_timer ^^ 60) ((tick_timer ^^ 60) ((tick_timer ^^ 60) plan)))) = 1"
proof -
  define s1 where "s1 = finish_cycle (plan\<lparr>current_time := 0\<rparr>)"
  define s2 where "s2 = finish_cycle (s1\<lparr>current_time := 0\<rparr>)"
  define s3 where "s3 = finish_cycle (s2\<lparr>current_time := 0\<rparr>)"
  define s4 where "s4 = finish_cycle (s3\<lparr>current_time := 0\<rparr>)"
  have f1: "is_running s1 \<and> current_time s1 = 60 \<and> mode s1 = BREAK \<and> current_cycle s1 = 1"
    by (simp add: s1_def plan_def run_defs)
  have f2: "is_running s2 \<and> current_time s2 = 60 \<and> mode s2 = WORK \<and> current_cycle s2 = 2"
    by (simp add: s2_def s1_def plan_def run_defs)
  have f3: "is_running s3 \<and> current_time s3 = 60 \<and> mode s3 = BREAK \<and> current_cycle s3 = 2"
    by (simp add: s3_def s2_def s1_def plan_def run_defs)
  have f4: "\<not> is_running s4 \<and> mode s4 = WORK \<and> current_cycle s4 = 1"
    by (simp add: s4_def s3_def s2_def s1_def plan_def run_defs)
  have t1: "(tick_timer ^^ 60) plan = s1"
    using ticks_whole_segment [of plan 59] by (simp add: s1_def plan_def run_defs)
  have t2: "(tick_timer ^^ 60) s1 = s2"
    using ticks_whole_segment [of s1 59] f1 by (simp add: s2_def)
  have t3: "(tick_timer ^^ 60) s2 = s3"
    using ticks_whole_segment [of s2 59] f2 by (simp add: s3_def)
  have t4: "(tick_timer ^^ 60) s3 = s4"
    using ticks_whole_segment [of s3 59] f3 by (simp add: s4_def)
  show ?thesis
    unfolding t1 t2 t3 t4 using f1 f2 f3 f4 by simp
qed

end
